theory Spec2Isabelle
  imports Main "HOL-Library.Finite_Map" "HOL-Library.Stream"
begin

section \<open>The bank ledger of \<^verbatim>\<open>src/bank/bank.py\<close>\<close>

text \<open>
  A shallow embedding of the class \<^verbatim>\<open>Bank\<close>. Money amounts, balances and pins are
  Python integers (\<open>int\<close>), strings are \<open>string\<close> (text outside ASCII is written as its
  UTF-8 bytes), the dictionary \<^verbatim>\<open>self.accounts\<close> is a finite map, and every method is
  an action on the \<open>world\<close>: the registry together with the two sources of the
  environment the methods read, the random generator and the system clock.
\<close>

subsection \<open>Exceptions\<close>

text \<open>
  The seven exception classes of the module, each with the message it is raised with,
  and the two built-in exceptions the code can meet: \<^verbatim>\<open>ValueError\<close> (raised by
  \<^verbatim>\<open>strptime\<close>, caught in \<^verbatim>\<open>account_creation\<close>) and \<^verbatim>\<open>KeyError\<close> (a dictionary
  read at a missing key).
\<close>

datatype exn =
    LimitError string
  | AccountNotFound string
  | InvalidPinError string
  | InvalidDateFormatError string
  | InvalidAgeError string
  | InsufficientBalanceError string
  | InvalidAmountError string
  | ValueError
  | KeyError string

subsection \<open>Data\<close>

record date =
  year :: int
  month :: int
  day :: int

record datetime = date +
  hour :: int
  minute :: int
  second :: int
  microsecond :: int

text \<open>\<^verbatim>\<open>datetime.date()\<close>: the calendar date of a time stamp.\<close>

definition date_of :: "datetime \<Rightarrow> date" where
  "date_of t = \<lparr>year = year t, month = month t, day = day t\<rparr>"

text \<open>The dictionary built by \<^verbatim>\<open>transaction_log\<close> and by \<^verbatim>\<open>account_creation\<close>.\<close>

record transaction =
  type :: string
  amount :: int
  time :: datetime
  "note" :: string

text \<open>The dictionary stored under an account number.\<close>

record account =
  account_holder :: string
  balance :: int
  transaction_history :: "transaction list"
  creation_time :: datetime
  dob :: date
  pin :: int

text \<open>
  The state the methods run in: \<open>accounts\<close> is \<^verbatim>\<open>self.accounts\<close>, \<open>rand\<close> the raw draws
  the module \<^verbatim>\<open>random\<close> will deliver, \<open>clock\<close> the readings the system clock will
  deliver, each in the order they are asked for.
\<close>

record world =
  accounts :: "(string, account) fmap"
  rand :: "nat stream"
  clock :: "datetime stream"

text \<open>\<^verbatim>\<open>Bank.__init__\<close>: an empty registry.\<close>

definition init :: "nat stream \<Rightarrow> datetime stream \<Rightarrow> world" where
  "init rs cs = \<lparr>accounts = fmempty, rand = rs, clock = cs\<rparr>"

subsection \<open>Constants of the class\<close>

definition MAX_ACCOUNTS :: nat where "MAX_ACCOUNTS = 10000"
definition MIN_BALANCE :: int where "MIN_BALANCE = 100"
definition MIN_AGE :: int where "MIN_AGE = 18"
definition MAX_AGE :: int where "MAX_AGE = 80"
definition ACCOUNT_PREFIX :: string where "ACCOUNT_PREFIX = ''230406''"

subsection \<open>Actions: state, exceptions and non-termination\<close>

text \<open>
  A method call runs from a world and either does not return (\<open>None\<close>) or ends in a
  world with an exception (\<open>Inl\<close>) or a value (\<open>Inr\<close>). The world an exception leaves
  behind is the one reached when it was raised, so a mutation made before a
  \<^verbatim>\<open>raise\<close> stays visible.
\<close>

type_synonym 'a action = "world \<Rightarrow> ((exn + 'a) \<times> world) option"

definition return :: "'a \<Rightarrow> 'a action" where
  "return x w = Some (Inr x, w)"

definition raise :: "exn \<Rightarrow> 'a action" where
  "raise e w = Some (Inl e, w)"

definition bind :: "'a action \<Rightarrow> ('a \<Rightarrow> 'b action) \<Rightarrow> 'b action" where
  "bind m f w =
     (case m w of
        None \<Rightarrow> None
      | Some (Inl e, w') \<Rightarrow> Some (Inl e, w')
      | Some (Inr x, w') \<Rightarrow> f x w')"

text \<open>One statement after another.\<close>

definition seq :: "unit action \<Rightarrow> 'b action \<Rightarrow> 'b action" where
  "seq m k = bind m (\<lambda>_. k)"

text \<open>\<^verbatim>\<open>try: body except ValueError: handler\<close>.\<close>

definition try_except_ValueError :: "'a action \<Rightarrow> 'a action \<Rightarrow> 'a action" where
  "try_except_ValueError body handler w =
     (case body w of
        Some (Inl ValueError, w') \<Rightarrow> handler w'
      | r \<Rightarrow> r)"

text \<open>An effect of the environment that always returns.\<close>

definition effect :: "(world \<Rightarrow> 'a \<times> world) \<Rightarrow> 'a action" where
  "effect f w = (case f w of (x, w') \<Rightarrow> Some (Inr x, w'))"

text \<open>Reading and writing \<^verbatim>\<open>self.accounts\<close>.\<close>

definition get_accounts :: "(string, account) fmap action" where
  "get_accounts w = Some (Inr (accounts w), w)"

text \<open>\<^verbatim>\<open>self.accounts[account]\<close>, a \<^verbatim>\<open>KeyError\<close> when the key is missing.\<close>

definition lookup_account :: "string \<Rightarrow> account action" where
  "lookup_account account w =
     (case fmlookup (accounts w) account of
        None \<Rightarrow> Some (Inl (KeyError account), w)
      | Some acc \<Rightarrow> Some (Inr acc, w))"

text \<open>\<^verbatim>\<open>self.accounts[account] = acc\<close>, also the write-back of an update in place.\<close>

definition store_account :: "string \<Rightarrow> account \<Rightarrow> unit action" where
  "store_account account acc w =
     Some (Inr (), w\<lparr>accounts := fmupd account acc (accounts w)\<rparr>)"

subsection \<open>The environment: clock and random numbers\<close>

text \<open>\<^verbatim>\<open>datetime.datetime.now()\<close> takes the next reading of the clock.\<close>

definition now :: "world \<Rightarrow> datetime \<times> world" where
  "now w = (shd (clock w), w\<lparr>clock := stl (clock w)\<rparr>)"

text \<open>\<^verbatim>\<open>datetime.date.today()\<close>: the date of the next reading.\<close>

definition today :: "world \<Rightarrow> date \<times> world" where
  "today w = (date_of (shd (clock w)), w\<lparr>clock := stl (clock w)\<rparr>)"

text \<open>
  \<^verbatim>\<open>random.randint(a, b)\<close> for \<open>a \<le> b\<close> (both calls of the module pass constants):
  some integer of \<open>[a, b]\<close>, here the next raw draw reduced to the range, so that every
  value of the range can come out.
\<close>

definition randint :: "int \<Rightarrow> int \<Rightarrow> world \<Rightarrow> int \<times> world" where
  "randint a b w =
     (a + int (shd (rand w) mod nat (b - a + 1)), w\<lparr>rand := stl (rand w)\<rparr>)"

subsection \<open>Strings\<close>

text \<open>\<^verbatim>\<open>str(n)\<close> for an integer: decimal digits, a minus sign when negative.\<close>

definition digit_char :: "nat \<Rightarrow> char" where
  "digit_char d = ''0123456789'' ! d"

fun str_nat :: "nat \<Rightarrow> string" where
  "str_nat n = (if n < 10 then [digit_char n] else str_nat (n div 10) @ [digit_char (n mod 10)])"

declare str_nat.simps [simp del]

definition str :: "int \<Rightarrow> string" where
  "str i = (if i < 0 then CHR ''-'' # str_nat (nat (- i)) else str_nat (nat i))"

text \<open>\<^verbatim>\<open>s.zfill(width)\<close>: zeros on the left, after a leading sign.\<close>

definition zfill :: "string \<Rightarrow> nat \<Rightarrow> string" where
  "zfill s width =
     (if width \<le> length s then s
      else (case s of
              c # rest \<Rightarrow>
                if c = CHR ''+'' \<or> c = CHR ''-''
                then c # replicate (width - length s) CHR ''0'' @ rest
                else replicate (width - length s) CHR ''0'' @ s
            | [] \<Rightarrow> replicate width CHR ''0''))"

text \<open>The rupee sign, the check mark and the money bag of the messages, in UTF-8.\<close>

definition rupee :: string where
  "rupee = [CHR 0xE2, CHR 0x82, CHR 0xB9]"

definition check_mark :: string where
  "check_mark = [CHR 0xE2, CHR 0x9C, CHR 0x85]"

definition money_bag :: string where
  "money_bag = [CHR 0xF0, CHR 0x9F, CHR 0x92, CHR 0xB0]"

subsection \<open>Parsing the date of birth\<close>

text \<open>
  \<^verbatim>\<open>datetime.datetime.strptime(dob, "%Y-%m-%d").date()\<close> is library code; this is its
  behaviour on ASCII text. The format compiles to the pattern
  \<^verbatim>\<open>(\d\d\d\d)-(1[0-2]|0[1-9]|[1-9])-(3[0-1]|[1-2]\d|0[1-9]|[1-9]| [1-9])\<close>, matched at the
  start of the string; text left over after the match, a year 0 and a day the month
  does not have are a \<^verbatim>\<open>ValueError\<close>. The alternatives are tried in order; a later
  alternative of the month cannot rescue a match, since the character wanted next is
  the hyphen.
\<close>

definition is_digit :: "char \<Rightarrow> bool" where
  "is_digit c = (48 \<le> (of_char c :: nat) \<and> (of_char c :: nat) \<le> 57)"

definition digit_value :: "char \<Rightarrow> int" where
  "digit_value c = int (of_char c) - 48"

definition expect_char :: "char \<Rightarrow> string \<Rightarrow> string option" where
  "expect_char c s = (case s of [] \<Rightarrow> None | x # rest \<Rightarrow> if x = c then Some rest else None)"

definition match_Y :: "string \<Rightarrow> (int \<times> string) option" where
  "match_Y s =
     (case s of
        a # b # c # d # rest \<Rightarrow>
          if is_digit a \<and> is_digit b \<and> is_digit c \<and> is_digit d
          then Some (1000 * digit_value a + 100 * digit_value b + 10 * digit_value c
                     + digit_value d, rest)
          else None
      | _ \<Rightarrow> None)"

definition two_chars :: "string \<Rightarrow> (char \<Rightarrow> bool) \<Rightarrow> (char \<Rightarrow> bool) \<Rightarrow> bool" where
  "two_chars s P Q = (case s of a # b # _ \<Rightarrow> P a \<and> Q b | _ \<Rightarrow> False)"

definition one_char :: "string \<Rightarrow> (char \<Rightarrow> bool) \<Rightarrow> bool" where
  "one_char s P = (case s of a # _ \<Rightarrow> P a | _ \<Rightarrow> False)"

definition digit_in :: "int \<Rightarrow> int \<Rightarrow> char \<Rightarrow> bool" where
  "digit_in lo hi c = (is_digit c \<and> lo \<le> digit_value c \<and> digit_value c \<le> hi)"

definition take_number :: "nat \<Rightarrow> string \<Rightarrow> (int \<times> string) option" where
  "take_number n s =
     Some (foldl (\<lambda>v c. 10 * v + (if c = CHR '' '' then 0 else digit_value c)) 0 (take n s),
           drop n s)"

definition match_m :: "string \<Rightarrow> (int \<times> string) option" where
  "match_m s =
     (if two_chars s (\<lambda>c. c = CHR ''1'') (digit_in 0 2) then take_number 2 s
      else if two_chars s (\<lambda>c. c = CHR ''0'') (digit_in 1 9) then take_number 2 s
      else if one_char s (digit_in 1 9) then take_number 1 s
      else None)"

definition match_d :: "string \<Rightarrow> (int \<times> string) option" where
  "match_d s =
     (if two_chars s (\<lambda>c. c = CHR ''3'') (digit_in 0 1) then take_number 2 s
      else if two_chars s (digit_in 1 2) is_digit then take_number 2 s
      else if two_chars s (\<lambda>c. c = CHR ''0'') (digit_in 1 9) then take_number 2 s
      else if one_char s (digit_in 1 9) then take_number 1 s
      else if two_chars s (\<lambda>c. c = CHR '' '') (digit_in 1 9) then take_number 2 s
      else None)"

definition parse_Ymd :: "string \<Rightarrow> (int \<times> int \<times> int) option" where
  "parse_Ymd s =
     Option.bind (match_Y s) (\<lambda>(y, s1).
     Option.bind (expect_char CHR ''-'' s1) (\<lambda>s2.
     Option.bind (match_m s2) (\<lambda>(m, s3).
     Option.bind (expect_char CHR ''-'' s3) (\<lambda>s4.
     Option.bind (match_d s4) (\<lambda>(d, s5).
     if s5 = [] then Some (y, m, d) else None)))))"

definition is_leap :: "int \<Rightarrow> bool" where
  "is_leap y = (y mod 4 = 0 \<and> (y mod 100 \<noteq> 0 \<or> y mod 400 = 0))"

definition days_in_month :: "int \<Rightarrow> int \<Rightarrow> int" where
  "days_in_month y m =
     (if m = 2 then (if is_leap y then 29 else 28)
      else if m = 4 \<or> m = 6 \<or> m = 9 \<or> m = 11 then 30 else 31)"

definition strptime_Ymd :: "string \<Rightarrow> exn + date" where
  "strptime_Ymd s =
     (case parse_Ymd s of
        None \<Rightarrow> Inl ValueError
      | Some (y, m, d) \<Rightarrow>
          if 1 \<le> y \<and> 1 \<le> d \<and> d \<le> days_in_month y m
          then Inr \<lparr>year = y, month = m, day = d\<rparr>
          else Inl ValueError)"

text \<open>A value or exception of pure code, as an action.\<close>

definition of_result :: "exn + 'a \<Rightarrow> 'a action" where
  "of_result r = (case r of Inl e \<Rightarrow> raise e | Inr x \<Rightarrow> return x)"

text \<open>Python compares tuples lexicographically: \<^verbatim>\<open>(a, b) < (c, d)\<close>.\<close>

definition tuple_less :: "int \<times> int \<Rightarrow> int \<times> int \<Rightarrow> bool" where
  "tuple_less p q = (fst p < fst q \<or> (fst p = fst q \<and> snd p < snd q))"

text \<open>
  The age of lines 82 to 84: the difference of the years, less the comparison's truth
  value (\<^verbatim>\<open>True\<close> counts as 1).
\<close>

definition age_on :: "date \<Rightarrow> date \<Rightarrow> int" where
  "age_on today_date dob_date =
     year today_date - year dob_date
       - of_bool (tuple_less (month today_date, day today_date) (month dob_date, day dob_date))"

subsection \<open>Helpers of the class\<close>

text \<open>
  \<^verbatim>\<open>generate_account_number\<close>: draw a suffix until the number is not a key of the
  registry. The loop has no bound; a run that never draws a free number does not
  return.
\<close>

partial_function (option) generate_account_number :: "world \<Rightarrow> ((exn + string) \<times> world) option"
  where
  "generate_account_number w =
     (case randint 0 9999 w of
        (r, w') \<Rightarrow>
          (let suffix = zfill (str r) 4;
               account_number = ACCOUNT_PREFIX @ suffix
           in if account_number |\<notin>| fmdom (accounts w')
              then Some (Inr account_number, w')
              else generate_account_number w'))"

definition generate_pin :: "int action" where
  "generate_pin = effect (randint 1000 9999)"

definition transaction_log :: "string \<Rightarrow> string \<Rightarrow> int \<Rightarrow> datetime \<Rightarrow> string \<Rightarrow> unit action" where
  "transaction_log account type_of_txn amnt tm nt =
     (let transaction = \<lparr>type = type_of_txn, amount = amnt, time = tm, note = nt\<rparr>
      in bind (lookup_account account) (\<lambda>acc.
         store_account account
           (acc\<lparr>transaction_history := transaction_history acc @ [transaction]\<rparr>)))"

definition validate_pin :: "string \<Rightarrow> int \<Rightarrow> unit action" where
  "validate_pin account p =
     bind (lookup_account account) (\<lambda>acc.
       if p \<noteq> pin acc then raise (InvalidPinError ''Invalid Pin'') else return ())"

definition validate_account :: "string \<Rightarrow> unit action" where
  "validate_account account =
     bind get_accounts (\<lambda>accs.
       if account |\<notin>| fmdom accs then raise (AccountNotFound ''Account not found'')
       else return ())"

definition validate_amount :: "int \<Rightarrow> unit action" where
  "validate_amount amnt =
     (if amnt \<le> 0
      then raise (InvalidAmountError
             ''Amount for deposit/withdrawal/transfer should be greater than 0'')
      else return ())"

definition validate_balance :: "string \<Rightarrow> int \<Rightarrow> unit action" where
  "validate_balance account amnt =
     bind (lookup_account account) (\<lambda>acc.
       if balance acc - amnt < MIN_BALANCE
       then raise (InsufficientBalanceError
              (''Balance after withdrawal/transfer should be more than '' @ rupee
               @ str MIN_BALANCE))
       else return ())"

text \<open>
  \<^verbatim>\<open>self.accounts[account]["balance"] += amount\<close> and \<^verbatim>\<open>-= amount\<close>: read the entry,
  write it back with the new balance.
\<close>

definition add_balance :: "string \<Rightarrow> int \<Rightarrow> unit action" where
  "add_balance account amnt =
     bind (lookup_account account) (\<lambda>acc.
       store_account account (acc\<lparr>balance := balance acc + amnt\<rparr>))"

definition sub_balance :: "string \<Rightarrow> int \<Rightarrow> unit action" where
  "sub_balance account amnt =
     bind (lookup_account account) (\<lambda>acc.
       store_account account (acc\<lparr>balance := balance acc - amnt\<rparr>))"

subsection \<open>Results\<close>

text \<open>The dictionaries the methods return.\<close>

record creation_result =
  account_number :: string
  issued_pin :: int
  creation_message :: string

record balance_result =
  message :: string
  current_balance :: int

record transfer_result =
  transfer_message :: string
  balance_from :: int
  balance_to :: int

text \<open>
  A \<^verbatim>\<open>PrettyTable\<close>: its field names and the rows added, a cell being a string or,
  in the account information, the date object of the date of birth.
\<close>

datatype cell = Text string | DateCell date

record pretty_table =
  field_names :: "string list"
  rows :: "cell list list"

definition PrettyTable :: pretty_table where
  "PrettyTable = \<lparr>field_names = [], rows = []\<rparr>"

definition add_row :: "cell list \<Rightarrow> pretty_table \<Rightarrow> pretty_table" where
  "add_row r t = t\<lparr>rows := rows t @ [r]\<rparr>"

text \<open>\<^verbatim>\<open>strftime('%Y-%m-%d %H:%M:%S')\<close>, for a year of four digits.\<close>

definition strftime :: "datetime \<Rightarrow> string" where
  "strftime t =
     zfill (str (year t)) 4 @ ''-'' @ zfill (str (month t)) 2 @ ''-'' @ zfill (str (day t)) 2
       @ '' '' @ zfill (str (hour t)) 2 @ '':'' @ zfill (str (minute t)) 2 @ '':''
       @ zfill (str (second t)) 2"

subsection \<open>The public methods\<close>

text \<open>
  Lines 92 and 93: the pin of the caller, replaced by a generated one when it is
  \<^verbatim>\<open>None\<close> or outside 1000 to 9999.
\<close>

definition effective_pin :: "int option \<Rightarrow> int action" where
  "effective_pin pin_arg =
     (case pin_arg of
        None \<Rightarrow> generate_pin
      | Some p \<Rightarrow> if \<not> (1000 \<le> p \<and> p \<le> 9999) then generate_pin else return p)"

definition account_creation ::
  "string \<Rightarrow> int \<Rightarrow> string \<Rightarrow> int option \<Rightarrow> creation_result action" where
  "account_creation name bal dob_text pin_arg =
     bind get_accounts (\<lambda>accs.
     if fcard (fmdom accs) = MAX_ACCOUNTS
     then raise (LimitError ''Total account limit reached. Unable to create a new account.'')
     else
       try_except_ValueError
         (bind (of_result (strptime_Ymd dob_text)) (\<lambda>dob_date.
          bind (effect today) (\<lambda>today_date.
          let age = age_on today_date dob_date in
          if \<not> (MIN_AGE \<le> age \<and> age \<le> MAX_AGE)
          then raise (InvalidAgeError
                 (''Sorry account creation is only allowed between the ages of ''
                  @ str MIN_AGE @ '' and '' @ str MAX_AGE))
          else if bal < MIN_BALANCE
          then raise (InvalidAmountError
                 (''Opening balance must be at least '' @ rupee @ str MIN_BALANCE @ ''.''))
          else
            bind (effective_pin pin_arg) (\<lambda>p.
            bind generate_account_number (\<lambda>number.
            bind (effect now) (\<lambda>created_at.
            seq (store_account number
                   \<lparr>account_holder = name,
                    balance = bal,
                    transaction_history =
                      [\<lparr>type = ''Deposit'', amount = bal, time = created_at,
                        note = ''Opening balance''\<rparr>],
                    creation_time = created_at,
                    dob = dob_date,
                    pin = p\<rparr>)
              (return
                 \<lparr>account_number = number,
                  issued_pin = p,
                  creation_message = check_mark @ '' Account created successfully!''\<rparr>)))))))
         (raise (InvalidDateFormatError ''Invalid date format. Please use YYYY-MM-DD.'')))"

definition deposit :: "string \<Rightarrow> int \<Rightarrow> int \<Rightarrow> balance_result action" where
  "deposit account p amnt =
     seq (validate_account account) (
     seq (validate_pin account p) (
     seq (validate_amount amnt) (
     seq (add_balance account amnt) (
     bind (effect now) (\<lambda>tm.
     seq (transaction_log account ''Deposit'' amnt tm ''Cash deposit'') (
     bind (lookup_account account) (\<lambda>acc.
     return
       \<lparr>message = check_mark @ '' '' @ rupee @ str amnt
                   @ '' has been successfully deposited.'',
        current_balance = balance acc\<rparr>)))))))"

definition withdrawal :: "string \<Rightarrow> int \<Rightarrow> int \<Rightarrow> balance_result action" where
  "withdrawal account p amnt =
     seq (validate_account account) (
     seq (validate_pin account p) (
     seq (validate_amount amnt) (
     seq (validate_balance account amnt) (
     seq (sub_balance account amnt) (
     bind (effect now) (\<lambda>tm.
     seq (transaction_log account ''Withdrawal'' amnt tm ''Cash withdrawal'') (
     bind (lookup_account account) (\<lambda>acc.
     return
       \<lparr>message = check_mark @ '' '' @ rupee @ str amnt
                   @ '' has been successfully withdrawn.'',
        current_balance = balance acc\<rparr>))))))))"

definition transfer :: "string \<Rightarrow> string \<Rightarrow> int \<Rightarrow> int \<Rightarrow> transfer_result action" where
  "transfer account1 account2 p amnt =
     seq (validate_account account1) (
     seq (validate_account account2) (
     seq (validate_pin account1 p) (
     seq (validate_amount amnt) (
     seq (validate_balance account1 amnt) (
     seq (sub_balance account1 amnt) (
     seq (add_balance account2 amnt) (
     bind (effect now) (\<lambda>tm.
     seq (transaction_log account1 (''Transfer to '' @ account2) amnt tm ''Cash transfer'') (
     seq (transaction_log account2 (''Transfer from '' @ account1) amnt tm ''Cash transfer'') (
     bind (lookup_account account1) (\<lambda>acc1.
     bind (lookup_account account2) (\<lambda>acc2.
     return
       \<lparr>transfer_message = check_mark @ '' '' @ rupee @ str amnt
                   @ '' has been successfully transferred from '' @ account1 @ '' to ''
                   @ account2 @ ''.'',
        balance_from = balance acc1,
        balance_to = balance acc2\<rparr>))))))))))))"

definition display_account_info :: "string \<Rightarrow> int \<Rightarrow> pretty_table action" where
  "display_account_info account p =
     seq (validate_account account) (
     seq (validate_pin account p) (
     bind (lookup_account account) (\<lambda>acc.
     return
       (add_row [Text ''Date of Birth'', DateCell (dob acc)] (
        add_row [Text ''Balance'', Text (rupee @ str (balance acc))] (
        add_row [Text ''Account Holder'', Text (account_holder acc)] (
        add_row [Text ''Account Number'', Text account] (
        PrettyTable\<lparr>field_names := [''Field'', ''Value'']\<rparr>))))))))"

definition display_balance :: "string \<Rightarrow> int \<Rightarrow> balance_result action" where
  "display_balance account p =
     seq (validate_account account) (
     seq (validate_pin account p) (
     bind (lookup_account account) (\<lambda>acc.
     return
       \<lparr>message = money_bag @ '' Your current balance is: '' @ rupee @ str (balance acc),
        current_balance = balance acc\<rparr>)))"

definition display_transaction_history :: "string \<Rightarrow> int \<Rightarrow> pretty_table action" where
  "display_transaction_history account p =
     seq (validate_account account) (
     seq (validate_pin account p) (
     bind (lookup_account account) (\<lambda>acc.
     return
       (foldl (\<lambda>table transaction.
                 add_row [Text (type transaction),
                          Text (str (amount transaction)),
                          Text (strftime (time transaction)),
                          Text (note transaction)] table)
          (PrettyTable\<lparr>field_names := [''Type'', ''Amount ('' @ rupee @ '')'', ''Time'', ''Note'']\<rparr>)
          (transaction_history acc)))))"

subsection \<open>Histories of calls\<close>

text \<open>
  The worlds a bank can be in: a fresh bank, and whatever a call of a public method
  returns from one of them, with a value or with an exception.
\<close>

inductive reachable :: "world \<Rightarrow> bool" where
  fresh: "reachable (init rs cs)"
| after_account_creation:
    "reachable w \<Longrightarrow> account_creation name bal dob_text pin_arg w = Some (r, w')
       \<Longrightarrow> reachable w'"
| after_deposit:
    "reachable w \<Longrightarrow> deposit account p amnt w = Some (r, w') \<Longrightarrow> reachable w'"
| after_withdrawal:
    "reachable w \<Longrightarrow> withdrawal account p amnt w = Some (r, w') \<Longrightarrow> reachable w'"
| after_transfer:
    "reachable w \<Longrightarrow> transfer account1 account2 p amnt w = Some (r, w') \<Longrightarrow> reachable w'"
| after_display_account_info:
    "reachable w \<Longrightarrow> display_account_info account p w = Some (r, w') \<Longrightarrow> reachable w'"
| after_display_balance:
    "reachable w \<Longrightarrow> display_balance account p w = Some (r, w') \<Longrightarrow> reachable w'"
| after_display_transaction_history:
    "reachable w \<Longrightarrow> display_transaction_history account p w = Some (r, w')
       \<Longrightarrow> reachable w'"

text \<open>
  The four kinds of transaction of the data model, read off the \<open>type\<close> string the
  code stores: a transfer's string carries the other account's number after a fixed
  prefix.
\<close>

datatype kind = Deposit | Withdrawal | Transfer_out | Transfer_in

definition kind_of :: "string \<Rightarrow> kind option" where
  "kind_of s =
     (if s = ''Deposit'' then Some Deposit
      else if s = ''Withdrawal'' then Some Withdrawal
      else if take 12 s = ''Transfer to '' then Some Transfer_out
      else if take 14 s = ''Transfer from '' then Some Transfer_in
      else None)"

text \<open>
  A stored record is in order when its type is of one of the four kinds and its amount
  is positive; a world is, when every record of every history is.
\<close>

definition stored_ok :: "transaction \<Rightarrow> bool" where
  "stored_ok t = (kind_of (type t) \<noteq> None \<and> 0 < amount t)"

definition histories_ok :: "world \<Rightarrow> bool" where
  "histories_ok w = fmpred (\<lambda>_ acc. list_all stored_ok (transaction_history acc)) (accounts w)"

subsection \<open>A bank with the two accounts of the demo script\<close>

definition noon :: datetime where
  "noon = \<lparr>year = 2026, month = 11, day = 4, hour = 12, minute = 0, second = 0,
           microsecond = 0\<rparr>"

definition opening_deposit :: "int \<Rightarrow> transaction" where
  "opening_deposit bal = \<lparr>type = ''Deposit'', amount = bal, time = noon, note = ''Opening balance''\<rparr>"

definition alice :: account where
  "alice = \<lparr>account_holder = ''Alice'', balance = 500, transaction_history = [opening_deposit 500],
            creation_time = noon, dob = \<lparr>year = 1995, month = 5, day = 12\<rparr>, pin = 1234\<rparr>"

definition bob :: account where
  "bob = \<lparr>account_holder = ''Bob'', balance = 1000, transaction_history = [opening_deposit 1000],
          creation_time = noon, dob = \<lparr>year = 1988, month = 9, day = 23\<rparr>, pin = 4321\<rparr>"

definition demo :: world where
  "demo = \<lparr>accounts = fmupd ''2304060002'' bob (fmupd ''2304060001'' alice fmempty),
           rand = sconst 7, clock = sconst noon\<rparr>"

section \<open>What each method does\<close>

lemmas act_defs = bind_def seq_def return_def raise_def effect_def get_accounts_def
  lookup_account_def store_account_def now_def today_def

lemmas validate_defs = validate_account_def validate_pin_def validate_amount_def
  validate_balance_def

text \<open>Each money method as one case distinction on the world it starts in.\<close>

lemma deposit_eq:
  "deposit a p n w =
     (case fmlookup (accounts w) a of
        None \<Rightarrow> Some (Inl (AccountNotFound ''Account not found''), w)
      | Some acc \<Rightarrow>
          if p \<noteq> pin acc then Some (Inl (InvalidPinError ''Invalid Pin''), w)
          else if n \<le> 0
          then Some (Inl (InvalidAmountError
                 ''Amount for deposit/withdrawal/transfer should be greater than 0''), w)
          else Some (Inr \<lparr>message = check_mark @ '' '' @ rupee @ str n
                                     @ '' has been successfully deposited.'',
                          current_balance = balance acc + n\<rparr>,
                     w\<lparr>accounts :=
                         fmupd a (acc\<lparr>balance := balance acc + n,
                                     transaction_history := transaction_history acc @
                                       [\<lparr>type = ''Deposit'', amount = n, time = shd (clock w),
                                         note = ''Cash deposit''\<rparr>]\<rparr>)
                           (accounts w),
                       clock := stl (clock w)\<rparr>))"
  by (simp add: deposit_def validate_defs add_balance_def transaction_log_def act_defs
      fmlookup_dom_iff split: option.splits)

lemma withdrawal_eq:
  "withdrawal a p n w =
     (case fmlookup (accounts w) a of
        None \<Rightarrow> Some (Inl (AccountNotFound ''Account not found''), w)
      | Some acc \<Rightarrow>
          if p \<noteq> pin acc then Some (Inl (InvalidPinError ''Invalid Pin''), w)
          else if n \<le> 0
          then Some (Inl (InvalidAmountError
                 ''Amount for deposit/withdrawal/transfer should be greater than 0''), w)
          else if balance acc - n < MIN_BALANCE
          then Some (Inl (InsufficientBalanceError
                 (''Balance after withdrawal/transfer should be more than '' @ rupee
                  @ str MIN_BALANCE)), w)
          else Some (Inr \<lparr>message = check_mark @ '' '' @ rupee @ str n
                                     @ '' has been successfully withdrawn.'',
                          current_balance = balance acc - n\<rparr>,
                     w\<lparr>accounts :=
                         fmupd a (acc\<lparr>balance := balance acc - n,
                                     transaction_history := transaction_history acc @
                                       [\<lparr>type = ''Withdrawal'', amount = n,
                                         time = shd (clock w),
                                         note = ''Cash withdrawal''\<rparr>]\<rparr>)
                           (accounts w),
                       clock := stl (clock w)\<rparr>))"
  by (simp add: withdrawal_def validate_defs sub_balance_def transaction_log_def act_defs
      fmlookup_dom_iff split: option.splits)

lemma transfer_eq:
  "transfer a1 a2 p n w =
     (case fmlookup (accounts w) a1 of
        None \<Rightarrow> Some (Inl (AccountNotFound ''Account not found''), w)
      | Some acc1 \<Rightarrow>
         (case fmlookup (accounts w) a2 of
            None \<Rightarrow> Some (Inl (AccountNotFound ''Account not found''), w)
          | Some acc2 \<Rightarrow>
              if p \<noteq> pin acc1 then Some (Inl (InvalidPinError ''Invalid Pin''), w)
              else if n \<le> 0
              then Some (Inl (InvalidAmountError
                     ''Amount for deposit/withdrawal/transfer should be greater than 0''), w)
              else if balance acc1 - n < MIN_BALANCE
              then Some (Inl (InsufficientBalanceError
                     (''Balance after withdrawal/transfer should be more than '' @ rupee
                      @ str MIN_BALANCE)), w)
              else if a1 = a2
              then Some (Inr \<lparr>transfer_message = check_mark @ '' '' @ rupee @ str n
                                @ '' has been successfully transferred from '' @ a1
                                @ '' to '' @ a2 @ ''.'',
                              balance_from = balance acc1, balance_to = balance acc1\<rparr>,
                         w\<lparr>accounts :=
                             fmupd a1
                               (acc1\<lparr>balance := balance acc1 - n + n,
                                     transaction_history := transaction_history acc1 @
                                       [\<lparr>type = ''Transfer to '' @ a2, amount = n,
                                         time = shd (clock w), note = ''Cash transfer''\<rparr>,
                                        \<lparr>type = ''Transfer from '' @ a1, amount = n,
                                         time = shd (clock w), note = ''Cash transfer''\<rparr>]\<rparr>)
                               (accounts w),
                           clock := stl (clock w)\<rparr>)
              else Some (Inr \<lparr>transfer_message = check_mark @ '' '' @ rupee @ str n
                                @ '' has been successfully transferred from '' @ a1
                                @ '' to '' @ a2 @ ''.'',
                              balance_from = balance acc1 - n,
                              balance_to = balance acc2 + n\<rparr>,
                         w\<lparr>accounts :=
                             fmupd a2
                               (acc2\<lparr>balance := balance acc2 + n,
                                     transaction_history := transaction_history acc2 @
                                       [\<lparr>type = ''Transfer from '' @ a1, amount = n,
                                         time = shd (clock w), note = ''Cash transfer''\<rparr>]\<rparr>)
                               (fmupd a1
                                  (acc1\<lparr>balance := balance acc1 - n,
                                        transaction_history := transaction_history acc1 @
                                          [\<lparr>type = ''Transfer to '' @ a2, amount = n,
                                            time = shd (clock w),
                                            note = ''Cash transfer''\<rparr>]\<rparr>)
                                  (accounts w)),
                           clock := stl (clock w)\<rparr>)))"
  apply (simp add: transfer_def validate_defs sub_balance_def add_balance_def
      transaction_log_def act_defs fmlookup_dom_iff split: option.splits)
  apply (auto simp: fmupd_reorder_neq)
  done

text \<open>A query ends in the world it started in, with its answer or with an exception.\<close>

lemma display_balance_same: "\<exists>r. display_balance a p w = Some (r, w)"
  by (simp add: display_balance_def validate_defs act_defs fmlookup_dom_iff
      split: option.splits)

lemma display_account_info_same: "\<exists>r. display_account_info a p w = Some (r, w)"
  by (simp add: display_account_info_def validate_defs act_defs fmlookup_dom_iff
      split: option.splits)

lemma display_transaction_history_same:
  "\<exists>r. display_transaction_history a p w = Some (r, w)"
  by (simp add: display_transaction_history_def validate_defs act_defs fmlookup_dom_iff
      split: option.splits)

text \<open>The random draws stay in their range and touch neither registry nor clock.\<close>

lemma randint_range:
  assumes "a \<le> b" and "randint a b w = (x, w')"
  shows "a \<le> x \<and> x \<le> b"
proof -
  have "0 < nat (b - a + 1)" using assms(1) by simp
  then have "shd (rand w) mod nat (b - a + 1) < nat (b - a + 1)"
    by (rule mod_less_divisor)
  then have "int (shd (rand w) mod nat (b - a + 1)) < b - a + 1"
    using assms(1) by linarith
  moreover have "x = a + int (shd (rand w) mod nat (b - a + 1))"
    using assms(2) by (simp add: randint_def)
  ultimately show ?thesis by simp
qed

lemma generate_pin_result:
  "\<exists>p w'. generate_pin w = Some (Inr p, w') \<and> 1000 \<le> p \<and> p \<le> 9999
      \<and> accounts w' = accounts w \<and> clock w' = clock w"
proof -
  obtain x w1 where d: "randint 1000 9999 w = (x, w1)"
    by (cases "randint 1000 9999 w")
  from randint_range[OF _ d] have "1000 \<le> x \<and> x \<le> 9999" by simp
  moreover from d have "accounts w1 = accounts w \<and> clock w1 = clock w"
    by (auto simp: randint_def)
  ultimately show ?thesis using d by (simp add: generate_pin_def effect_def)
qed

lemma effective_pin_result:
  "\<exists>p w'. effective_pin parg w = Some (Inr p, w')
      \<and> (case parg of
            None \<Rightarrow> 1000 \<le> p \<and> p \<le> 9999
          | Some q \<Rightarrow> if 1000 \<le> q \<and> q \<le> 9999 then p = q else 1000 \<le> p \<and> p \<le> 9999)
      \<and> accounts w' = accounts w \<and> clock w' = clock w"
  using generate_pin_result[of w]
  by (auto simp: effective_pin_def return_def split: option.splits)

text \<open>
  When the search for an account number returns, it returns a number that is not yet a
  key, starts with the prefix, and the registry and the clock are as before.
\<close>

lemma generate_account_number_result:
  assumes "generate_account_number w = Some y"
  shows "(\<exists>number. fst y = Inr number \<and> number |\<notin>| fmdom (accounts w)
            \<and> take 6 number = ACCOUNT_PREFIX)
         \<and> accounts (snd y) = accounts w \<and> clock (snd y) = clock w"
  using assms
proof (induction w y rule: generate_account_number.raw_induct [rotated 1, consumes 1])
  case (1 gen w y)
  obtain x w1 where d: "randint 0 9999 w = (x, w1)"
    by (cases "randint 0 9999 w")
  then have same: "accounts w1 = accounts w" "clock w1 = clock w"
    by (auto simp: randint_def)
  show ?case
  proof (cases "(ACCOUNT_PREFIX @ zfill (str x) 4) |\<notin>| fmdom (accounts w1)")
    case True
    with 1(2) d same show ?thesis by (auto simp: Let_def ACCOUNT_PREFIX_def)
  next
    case False
    with 1(2) d have "gen w1 = Some y" by (simp add: Let_def)
    from 1(1)[OF this] same show ?thesis by simp
  qed
qed

text \<open>A failed creation has not written to the registry.\<close>

lemma account_creation_Inl:
  assumes "account_creation name bal d parg w = Some (Inl e, w')"
  shows "accounts w' = accounts w"
proof -
  obtain p w1
    where cp: "effective_pin parg (w\<lparr>clock := stl (clock w)\<rparr>) = Some (Inr p, w1)"
      and w1: "accounts w1 = accounts w" "clock w1 = stl (clock w)"
    using effective_pin_result[of parg "w\<lparr>clock := stl (clock w)\<rparr>"] by auto
  show ?thesis
  proof (cases "generate_account_number w1")
    case None
    with assms cp show ?thesis
      by (auto simp: account_creation_def act_defs try_except_ValueError_def of_result_def
          Let_def split: if_splits sum.splits exn.splits)
  next
    case (Some y)
    from generate_account_number_result[OF Some] obtain number w2
      where y: "y = (Inr number, w2)" "accounts w2 = accounts w1"
      by (cases y) auto
    with assms cp Some w1 show ?thesis
      by (auto simp: account_creation_def act_defs try_except_ValueError_def of_result_def
          Let_def split: if_splits sum.splits exn.splits)
  qed
qed

text \<open>A successful creation passed every check and wrote exactly the new entry.\<close>

lemma account_creation_Inr:
  assumes "account_creation name bal d parg w = Some (Inr r, w')"
  shows "\<exists>dob_date.
           fcard (fmdom (accounts w)) \<noteq> MAX_ACCOUNTS
         \<and> strptime_Ymd d = Inr dob_date
         \<and> MIN_AGE \<le> age_on (date_of (shd (clock w))) dob_date
         \<and> age_on (date_of (shd (clock w))) dob_date \<le> MAX_AGE
         \<and> MIN_BALANCE \<le> bal
         \<and> (case parg of
               None \<Rightarrow> 1000 \<le> issued_pin r \<and> issued_pin r \<le> 9999
             | Some q \<Rightarrow> if 1000 \<le> q \<and> q \<le> 9999 then issued_pin r = q
                        else 1000 \<le> issued_pin r \<and> issued_pin r \<le> 9999)
         \<and> account_number r |\<notin>| fmdom (accounts w)
         \<and> take 6 (account_number r) = ACCOUNT_PREFIX
         \<and> accounts w' =
               fmupd (account_number r)
                 \<lparr>account_holder = name, balance = bal,
                  transaction_history =
                    [\<lparr>type = ''Deposit'', amount = bal, time = shd (stl (clock w)),
                      note = ''Opening balance''\<rparr>],
                  creation_time = shd (stl (clock w)), dob = dob_date,
                  pin = issued_pin r\<rparr>
                 (accounts w)"
proof -
  obtain p w1
    where cp: "effective_pin parg (w\<lparr>clock := stl (clock w)\<rparr>) = Some (Inr p, w1)"
      and w1: "accounts w1 = accounts w" "clock w1 = stl (clock w)"
      and p: "(case parg of
                 None \<Rightarrow> 1000 \<le> p \<and> p \<le> 9999
               | Some q \<Rightarrow> if 1000 \<le> q \<and> q \<le> 9999 then p = q
                          else 1000 \<le> p \<and> p \<le> 9999)"
    using effective_pin_result[of parg "w\<lparr>clock := stl (clock w)\<rparr>"] by auto
  show ?thesis
  proof (cases "generate_account_number w1")
    case None
    with assms cp show ?thesis
      by (auto simp: account_creation_def act_defs try_except_ValueError_def of_result_def
          Let_def split: if_splits sum.splits exn.splits option.splits)
  next
    case (Some y)
    from generate_account_number_result[OF Some] obtain number w2
      where y: "y = (Inr number, w2)" "accounts w2 = accounts w1" "clock w2 = clock w1"
        "number |\<notin>| fmdom (accounts w1)" "take 6 number = ACCOUNT_PREFIX"
      by (cases y) auto
    with assms cp Some w1 p show ?thesis
      by (auto simp: account_creation_def act_defs try_except_ValueError_def of_result_def
          Let_def split: if_splits sum.splits exn.splits option.splits)
  qed
qed

text \<open>Evaluating the model on the demo bank.\<close>

lemmas demo_defs = demo_def alice_def bob_def opening_deposit_def noon_def

lemmas strptime_defs = strptime_Ymd_def parse_Ymd_def match_Y_def match_m_def match_d_def
  expect_char_def two_chars_def one_char_def digit_in_def is_digit_def digit_value_def
  take_number_def days_in_month_def is_leap_def

lemmas str_defs = str_def str_nat.simps digit_char_def zfill_def

lemma strptime_alice:
  "strptime_Ymd ''1995-05-12'' = Inr \<lparr>year = 1995, month = 5, day = 12\<rparr>"
  by (simp add: strptime_defs)

text \<open>The first account of a fresh bank whose random source always draws 7.\<close>

lemma suffix_7: "zfill (str 7) 4 = ''0007''"
  by code_simp

lemma randint_7: "randint 0 9999 \<lparr>accounts = m, rand = sconst 7, clock = cs\<rparr>
    = (7, \<lparr>accounts = m, rand = sconst 7, clock = cs\<rparr>)"
  by (simp add: randint_def)

lemma gen_fresh:
  "''2304060007'' |\<notin>| fmdom m \<Longrightarrow>
   generate_account_number \<lparr>accounts = m, rand = sconst 7, clock = cs\<rparr>
    = Some (Inr ''2304060007'', \<lparr>accounts = m, rand = sconst 7, clock = cs\<rparr>)"
  by (subst generate_account_number.simps)
     (simp add: randint_7 Let_def suffix_7 ACCOUNT_PREFIX_def)

lemmas creation_defs = account_creation_def act_defs try_except_ValueError_def of_result_def
  MAX_ACCOUNTS_def age_on_def date_of_def tuple_less_def MIN_AGE_def MAX_AGE_def
  MIN_BALANCE_def effective_pin_def generate_pin_def

lemma creation_alice:
  "account_creation ''Alice'' 500 ''1995-05-12'' (Some 1234) (init (sconst 7) (sconst noon)) =
     Some (Inr \<lparr>account_number = ''2304060007'', issued_pin = 1234,
                creation_message = check_mark @ '' Account created successfully!''\<rparr>,
           \<lparr>accounts = fmupd ''2304060007'' alice fmempty, rand = sconst 7,
            clock = sconst noon\<rparr>)"
  by (simp add: creation_defs strptime_alice init_def fcard_fempty gen_fresh alice_def
      opening_deposit_def noon_def)




text \<open>Every call keeps the histories in order, so every reachable world has them so.\<close>

lemma histories_ok_iff:
  "histories_ok w =
     (\<forall>a acc. fmlookup (accounts w) a = Some acc \<longrightarrow> list_all stored_ok (transaction_history acc))"
  by (simp add: histories_ok_def fmpred_iff)

lemma histories_ok_same: "accounts w' = accounts w \<Longrightarrow> histories_ok w \<Longrightarrow> histories_ok w'"
  by (simp add: histories_ok_iff)

lemma deposit_histories:
  assumes "histories_ok w" and "deposit a p n w = Some (r, w')"
  shows "histories_ok w'"
  using assms
  by (auto simp: deposit_eq histories_ok_iff stored_ok_def kind_of_def
      split: option.splits if_splits)

lemma withdrawal_histories:
  assumes "histories_ok w" and "withdrawal a p n w = Some (r, w')"
  shows "histories_ok w'"
  using assms
  by (auto simp: withdrawal_eq histories_ok_iff stored_ok_def kind_of_def
      split: option.splits if_splits)

lemma transfer_histories:
  assumes "histories_ok w" and "transfer a1 a2 p n w = Some (r, w')"
  shows "histories_ok w'"
  using assms
  by (auto simp: transfer_eq histories_ok_iff stored_ok_def kind_of_def
      split: option.splits if_splits)

lemma account_creation_histories:
  assumes "histories_ok w" and "account_creation name bal d parg w = Some (r, w')"
  shows "histories_ok w'"
proof (cases r)
  case (Inl e)
  with assms(2) have "accounts w' = accounts w" by (auto dest: account_creation_Inl)
  then show ?thesis using assms(1) by (rule histories_ok_same)
next
  case (Inr res)
  with assms(2) have "account_creation name bal d parg w = Some (Inr res, w')" by simp
  from account_creation_Inr[OF this] assms(1) show ?thesis
    by (auto simp: histories_ok_iff stored_ok_def kind_of_def MIN_BALANCE_def
        split: if_splits)
qed

lemma reachable_histories: "reachable w \<Longrightarrow> histories_ok w"
proof (induction rule: reachable.induct)
  case (fresh rs cs)
  show ?case by (simp add: histories_ok_def init_def)
next
  case (after_account_creation w name bal dob_text pin_arg r w')
  then show ?case by (blast intro: account_creation_histories)
next
  case (after_deposit w account p amnt r w')
  then show ?case by (blast intro: deposit_histories)
next
  case (after_withdrawal w account p amnt r w')
  then show ?case by (blast intro: withdrawal_histories)
next
  case (after_transfer w account1 account2 p amnt r w')
  then show ?case by (blast intro: transfer_histories)
next
  case (after_display_account_info w account p r w')
  with display_account_info_same[of account p w] show ?case by auto
next
  case (after_display_balance w account p r w')
  with display_balance_same[of account p w] show ?case by auto
next
  case (after_display_transaction_history w account p r w')
  with display_transaction_history_same[of account p w] show ?case by auto
qed

section \<open>The claims\<close>

subsection \<open>Queries\<close>

text \<open>
  C10. The query methods \<^verbatim>\<open>display_balance\<close>, \<^verbatim>\<open>display_account_info\<close> and
  \<^verbatim>\<open>display_transaction_history\<close> never mutate the registry: for every account
  number and pin, whether the call succeeds or raises, it returns, and the world it
  ends in is the world it started in (the set of accounts and every balance, pin and
  history included).
\<close>

theorem queries_do_not_mutate:
  "(\<exists>r. display_balance account p w = Some (r, w))
   \<and> (\<exists>r. display_account_info account p w = Some (r, w))
   \<and> (\<exists>r. display_transaction_history account p w = Some (r, w))"
  by (simp add: display_balance_same display_account_info_same
      display_transaction_history_same)

subsection \<open>Failures\<close>

text \<open>
  C2. Whenever a public method (\<^verbatim>\<open>account_creation\<close>, \<^verbatim>\<open>deposit\<close>,
  \<^verbatim>\<open>withdrawal\<close>, \<^verbatim>\<open>transfer\<close> or one of the three queries) ends with an
  exception, the registry it leaves is exactly the registry it found: the same
  accounts with the same balances, pins and histories.
\<close>

theorem failure_leaves_registry:
  assumes "account_creation name bal dob_text pin_arg w = Some (Inl e, w')
         \<or> deposit account p amnt w = Some (Inl e, w')
         \<or> withdrawal account p amnt w = Some (Inl e, w')
         \<or> transfer account account2 p amnt w = Some (Inl e, w')
         \<or> display_account_info account p w = Some (Inl e, w')
         \<or> display_balance account p w = Some (Inl e, w')
         \<or> display_transaction_history account p w = Some (Inl e, w')"
  shows "accounts w' = accounts w"
proof -
  consider (c) "account_creation name bal dob_text pin_arg w = Some (Inl e, w')"
    | (d) "deposit account p amnt w = Some (Inl e, w')"
    | (wd) "withdrawal account p amnt w = Some (Inl e, w')"
    | (t) "transfer account account2 p amnt w = Some (Inl e, w')"
    | (i) "display_account_info account p w = Some (Inl e, w')"
    | (b) "display_balance account p w = Some (Inl e, w')"
    | (h) "display_transaction_history account p w = Some (Inl e, w')"
    using assms by blast
  then show ?thesis
  proof cases
    case c
    then show ?thesis by (rule account_creation_Inl)
  next
    case d
    then show ?thesis by (auto simp: deposit_eq split: option.splits if_splits)
  next
    case wd
    then show ?thesis by (auto simp: withdrawal_eq split: option.splits if_splits)
  next
    case t
    then show ?thesis by (auto simp: transfer_eq split: option.splits if_splits)
  next
    case i
    with display_account_info_same[of account p w] show ?thesis by auto
  next
    case b
    with display_balance_same[of account p w] show ?thesis by auto
  next
    case h
    with display_transaction_history_same[of account p w] show ?thesis by auto
  qed
qed

text \<open>
  On the demo bank: withdrawing 450 from Alice's 500 is refused and nothing changes;
  opening an account with 50 is refused after the clock was read, and the registry is
  the one before.
\<close>

theorem failure_leaves_registry_witness:
  "withdrawal ''2304060001'' 1234 450 demo =
     Some (Inl (InsufficientBalanceError
        (''Balance after withdrawal/transfer should be more than '' @ rupee @ ''100'')), demo)
   \<and> account_creation ''Carol'' 50 ''1995-05-12'' None demo =
     Some (Inl (InvalidAmountError (''Opening balance must be at least '' @ rupee @ ''100.'')),
           demo\<lparr>clock := stl (clock demo)\<rparr>)
   \<and> accounts (demo\<lparr>clock := stl (clock demo)\<rparr>) = accounts demo"
proof -
  have w: "withdrawal ''2304060001'' 1234 450 demo =
     Some (Inl (InsufficientBalanceError
        (''Balance after withdrawal/transfer should be more than '' @ rupee @ ''100'')), demo)"
    by (simp add: withdrawal_eq demo_defs MIN_BALANCE_def str_defs)
  have c: "account_creation ''Carol'' 50 ''1995-05-12'' None demo =
     Some (Inl (InvalidAmountError (''Opening balance must be at least '' @ rupee @ ''100.'')),
           demo\<lparr>clock := stl (clock demo)\<rparr>)"
    by (simp add: account_creation_def act_defs try_except_ValueError_def of_result_def
        strptime_alice demo_defs MAX_ACCOUNTS_def fcard_finsert_if fcard_fempty age_on_def
        date_of_def tuple_less_def MIN_AGE_def MAX_AGE_def MIN_BALANCE_def str_defs)
  from failure_leaves_registry
         [of "''Carol''" 50 "''1995-05-12''" None demo _ _ "''x''" 0 0 "''y''", OF disjI1, OF c]
  have "accounts (demo\<lparr>clock := stl (clock demo)\<rparr>) = accounts demo" .
  with w c show ?thesis by simp
qed

subsection \<open>The minimum balance\<close>

text \<open>
  C1. After every completed call of \<^verbatim>\<open>account_creation\<close>, \<^verbatim>\<open>deposit\<close>,
  \<^verbatim>\<open>withdrawal\<close> or \<^verbatim>\<open>transfer\<close>, every account of the registry has a balance of at
  least \<^verbatim>\<open>MIN_BALANCE\<close> (100), provided its balance was at least 100 before the call;
  an account the call has just created has none before, and its opening balance was
  checked.
\<close>

theorem min_balance_kept:
  assumes call: "account_creation name bal dob_text pin_arg w = Some (Inr r1, w')
         \<or> deposit x p n w = Some (Inr r2, w')
         \<or> withdrawal x p n w = Some (Inr r3, w')
         \<or> transfer x y p n w = Some (Inr r4, w')"
    and after: "fmlookup (accounts w') a = Some acc'"
    and before: "\<forall>acc. fmlookup (accounts w) a = Some acc \<longrightarrow> 100 \<le> balance acc"
  shows "100 \<le> balance acc'"
proof -
  consider (c) "account_creation name bal dob_text pin_arg w = Some (Inr r1, w')"
    | (d) "deposit x p n w = Some (Inr r2, w')"
    | (wd) "withdrawal x p n w = Some (Inr r3, w')"
    | (t) "transfer x y p n w = Some (Inr r4, w')"
    using call by blast
  then show ?thesis
  proof cases
    case c
    from account_creation_Inr[OF c] after before show ?thesis
      by (auto simp: MIN_BALANCE_def split: if_splits)
  next
    case d
    with after before show ?thesis
      by (auto simp: deposit_eq split: option.splits if_splits)
  next
    case wd
    with after before show ?thesis
      by (auto simp: withdrawal_eq MIN_BALANCE_def split: option.splits if_splits)
  next
    case t
    with after before show ?thesis
      by (auto simp: transfer_eq MIN_BALANCE_def split: option.splits if_splits)
  qed
qed

text \<open>Alice transfers 400 of her 500 to Bob and keeps exactly 100.\<close>

theorem min_balance_kept_witness:
  "\<exists>r w' acc'. transfer ''2304060001'' ''2304060002'' 1234 400 demo = Some (Inr r, w')
     \<and> fmlookup (accounts w') ''2304060001'' = Some acc'
     \<and> balance acc' = 100 \<and> 100 \<le> balance acc'"
proof -
  obtain r w' acc' where
    t: "transfer ''2304060001'' ''2304060002'' 1234 400 demo = Some (Inr r, w')"
    and l: "fmlookup (accounts w') ''2304060001'' = Some acc'" and b: "balance acc' = 100"
    by (simp add: transfer_eq demo_defs MIN_BALANCE_def)
  have "\<forall>acc. fmlookup (accounts demo) ''2304060001'' = Some acc \<longrightarrow> 100 \<le> balance acc"
    by (simp add: demo_defs)
  with min_balance_kept[of _ _ _ _ demo _ w' "''2304060001''" 1234 400 _ _ "''2304060002''" r
        "''2304060001''" acc'] t l
  have "100 \<le> balance acc'" by blast
  with t l b show ?thesis by blast
qed

subsection \<open>The order of the checks\<close>

text \<open>
  C4. In \<^verbatim>\<open>deposit\<close>, \<^verbatim>\<open>withdrawal\<close> and \<^verbatim>\<open>transfer\<close> the checks run in the order:
  the account (for a transfer, both accounts) exists, the pin matches, the amount is
  positive, the balance suffices. An input that breaks several of them gets the
  exception of the first it breaks: an unknown account gives \<^verbatim>\<open>AccountNotFound\<close>
  whatever the pin and the amount, a wrong pin gives \<^verbatim>\<open>InvalidPinError\<close> whatever
  the amount, and an amount that is not positive gives \<^verbatim>\<open>InvalidAmountError\<close>
  whatever the balance.
\<close>

theorem validation_order:
  "(fmlookup (accounts w) a = None \<longrightarrow>
      deposit a p n w = Some (Inl (AccountNotFound ''Account not found''), w)
    \<and> withdrawal a p n w = Some (Inl (AccountNotFound ''Account not found''), w)
    \<and> transfer a a2 p n w = Some (Inl (AccountNotFound ''Account not found''), w)
    \<and> transfer a2 a p n w = Some (Inl (AccountNotFound ''Account not found''), w))
   \<and> (fmlookup (accounts w) a = Some acc \<and> p \<noteq> pin acc \<longrightarrow>
      deposit a p n w = Some (Inl (InvalidPinError ''Invalid Pin''), w)
    \<and> withdrawal a p n w = Some (Inl (InvalidPinError ''Invalid Pin''), w)
    \<and> (fmlookup (accounts w) a2 \<noteq> None \<longrightarrow>
         transfer a a2 p n w = Some (Inl (InvalidPinError ''Invalid Pin''), w)))
   \<and> (fmlookup (accounts w) a = Some acc \<and> p = pin acc \<and> n \<le> 0 \<longrightarrow>
      deposit a p n w = Some (Inl (InvalidAmountError
        ''Amount for deposit/withdrawal/transfer should be greater than 0''), w)
    \<and> withdrawal a p n w = Some (Inl (InvalidAmountError
        ''Amount for deposit/withdrawal/transfer should be greater than 0''), w)
    \<and> (fmlookup (accounts w) a2 \<noteq> None \<longrightarrow>
         transfer a a2 p n w = Some (Inl (InvalidAmountError
           ''Amount for deposit/withdrawal/transfer should be greater than 0''), w)))
   \<and> (fmlookup (accounts w) a = Some acc \<and> p = pin acc \<and> 0 < n \<and> balance acc - n < 100 \<longrightarrow>
      withdrawal a p n w = Some (Inl (InsufficientBalanceError
        (''Balance after withdrawal/transfer should be more than '' @ rupee @ ''100'')), w)
    \<and> (fmlookup (accounts w) a2 \<noteq> None \<longrightarrow>
         transfer a a2 p n w = Some (Inl (InsufficientBalanceError
           (''Balance after withdrawal/transfer should be more than '' @ rupee @ ''100'')), w)))"
  by (auto simp: deposit_eq withdrawal_eq transfer_eq MIN_BALANCE_def str_defs
      split: option.splits)

text \<open>
  On the demo bank: an unknown account with a wrong pin and a negative amount, a wrong
  pin with a negative amount, a negative amount, and an amount one too large.
\<close>

theorem validation_order_witness:
  "deposit ''0000000000'' 1 (-5) demo = Some (Inl (AccountNotFound ''Account not found''), demo)
   \<and> transfer ''2304060001'' ''0000000000'' 1 (-5) demo
       = Some (Inl (AccountNotFound ''Account not found''), demo)
   \<and> withdrawal ''2304060001'' 1 (-5) demo = Some (Inl (InvalidPinError ''Invalid Pin''), demo)
   \<and> transfer ''2304060001'' ''2304060002'' 1 (-5) demo
       = Some (Inl (InvalidPinError ''Invalid Pin''), demo)
   \<and> transfer ''2304060001'' ''2304060002'' 1234 (-5) demo
       = Some (Inl (InvalidAmountError
           ''Amount for deposit/withdrawal/transfer should be greater than 0''), demo)
   \<and> transfer ''2304060001'' ''2304060002'' 1234 401 demo
       = Some (Inl (InsufficientBalanceError
           (''Balance after withdrawal/transfer should be more than '' @ rupee @ ''100'')), demo)"
  using validation_order[of demo "''0000000000''" 1 "-5" "''2304060001''" alice]
        validation_order[of demo "''2304060001''" 1 "-5" "''2304060002''" alice]
        validation_order[of demo "''2304060001''" 1234 "-5" "''2304060002''" alice]
        validation_order[of demo "''2304060001''" 1234 401 "''2304060002''" alice]
  by (simp add: demo_def) (simp add: alice_def)

subsection \<open>Transfers\<close>

text \<open>
  C3, as stated, speaks of all accounts X and Y of the registry. With X and Y the same
  account it fails: Alice, with 500 and the right pin, transfers 100 to herself; the
  transfer succeeds, her balance is 500 and not 400, and her history has gained two
  records, not one.
\<close>

theorem transfer_to_self_counterexample:
  "fmlookup (accounts demo) ''2304060001'' = Some alice \<and> pin alice = 1234
   \<and> balance alice = 500 \<and> (0::int) < 100 \<and> (100::int) \<le> 500 - 100
   \<and> transfer ''2304060001'' ''2304060001'' 1234 100 demo =
       Some (Inr \<lparr>transfer_message = check_mark @ '' '' @ rupee
                    @ ''100 has been successfully transferred from 2304060001 to 2304060001.'',
                  balance_from = 500, balance_to = 500\<rparr>,
             demo\<lparr>accounts :=
                    fmupd ''2304060001''
                      (alice\<lparr>transaction_history :=
                         [opening_deposit 500,
                          \<lparr>type = ''Transfer to 2304060001'', amount = 100, time = noon,
                            note = ''Cash transfer''\<rparr>,
                          \<lparr>type = ''Transfer from 2304060001'', amount = 100, time = noon,
                            note = ''Cash transfer''\<rparr>]\<rparr>)
                      (accounts demo),
                  clock := stl (clock demo)\<rparr>)
   \<and> (500::int) \<noteq> 500 - 100"
  by (simp add: transfer_eq demo_defs MIN_BALANCE_def str_defs)

text \<open>
  C3, amended. For accounts X and Y of the registry with balances Bx and By, the pin of
  X and an amount A > 0: if X and Y are different accounts and Bx - A \<ge> 100,
  \<^verbatim>\<open>transfer(X, Y, pin, A)\<close> succeeds, X ends with Bx - A and Y with By + A, the
  reported balances are these, and each history gains exactly one record, the
  source's naming Y and the destination's naming X, both with the same time stamp;
  if Bx - A < 100 the transfer fails (with \<^verbatim>\<open>InsufficientBalanceError\<close>, whether or
  not X and Y differ) and the world is unchanged.
\<close>

theorem transfer_between_accounts:
  assumes "fmlookup (accounts w) x = Some accx" and "fmlookup (accounts w) y = Some accy"
    and "p = pin accx" and "0 < a"
  shows "(x \<noteq> y \<and> 100 \<le> balance accx - a \<longrightarrow>
           (\<exists>r w' t.
              transfer x y p a w = Some (Inr r, w')
            \<and> balance_from r = balance accx - a \<and> balance_to r = balance accy + a
            \<and> fmlookup (accounts w') x =
                Some (accx\<lparr>balance := balance accx - a,
                           transaction_history := transaction_history accx @
                             [\<lparr>type = ''Transfer to '' @ y, amount = a, time = t,
                               note = ''Cash transfer''\<rparr>]\<rparr>)
            \<and> fmlookup (accounts w') y =
                Some (accy\<lparr>balance := balance accy + a,
                           transaction_history := transaction_history accy @
                             [\<lparr>type = ''Transfer from '' @ x, amount = a, time = t,
                               note = ''Cash transfer''\<rparr>]\<rparr>)))
       \<and> (balance accx - a < 100 \<longrightarrow>
           (\<exists>msg. transfer x y p a w = Some (Inl (InsufficientBalanceError msg), w)))"
  using assms by (auto simp: transfer_eq MIN_BALANCE_def)

text \<open>Alice sends 400 of her 500 to Bob, who had 1000.\<close>

theorem transfer_between_accounts_witness:
  "\<exists>r w' t.
     transfer ''2304060001'' ''2304060002'' 1234 400 demo = Some (Inr r, w')
     \<and> balance_from r = 100 \<and> balance_to r = 1400
     \<and> fmlookup (accounts w') ''2304060001'' =
         Some (alice\<lparr>balance := 100,
                    transaction_history := [opening_deposit 500,
                      \<lparr>type = ''Transfer to 2304060002'', amount = 400, time = t,
                        note = ''Cash transfer''\<rparr>]\<rparr>)
     \<and> fmlookup (accounts w') ''2304060002'' =
         Some (bob\<lparr>balance := 1400,
                    transaction_history := [opening_deposit 1000,
                      \<lparr>type = ''Transfer from 2304060001'', amount = 400, time = t,
                        note = ''Cash transfer''\<rparr>]\<rparr>)"
  using transfer_between_accounts[of demo "''2304060001''" alice "''2304060002''" bob 1234 400]
  by (simp add: demo_def) (simp add: alice_def bob_def)



subsection \<open>Deposit and withdrawal\<close>



subsection \<open>Account creation\<close>

text \<open>
  C5. A successful call of \<^verbatim>\<open>account_creation\<close> with opening balance B inserts a new
  account (its number was not a key before) whose history is exactly one record, a
  Deposit of amount B with the note "Opening balance", and returns the new number
  with the pin in effect, the one stored: the caller's pin when it lies in
  [1000, 9999], otherwise a generated pin of [1000, 9999].
\<close>

theorem creation_opens_history:
  assumes "account_creation name bal dob_text pin_arg w = Some (Inr r, w')"
  shows "\<exists>acc t.
           account_number r |\<notin>| fmdom (accounts w)
         \<and> fmlookup (accounts w') (account_number r) = Some acc
         \<and> transaction_history acc =
             [\<lparr>type = ''Deposit'', amount = bal, time = t, note = ''Opening balance''\<rparr>]
         \<and> pin acc = issued_pin r
         \<and> (case pin_arg of
               None \<Rightarrow> 1000 \<le> issued_pin r \<and> issued_pin r \<le> 9999
             | Some q \<Rightarrow> if 1000 \<le> q \<and> q \<le> 9999 then issued_pin r = q
                        else 1000 \<le> issued_pin r \<and> issued_pin r \<le> 9999)"
  using account_creation_Inr[OF assms] by (auto split: option.splits)

text \<open>
  The first call of the demo script, \<^verbatim>\<open>account_creation("Alice", 500, "1995-05-12", 1234)\<close>,
  on a fresh bank on 4 November 2026.
\<close>

theorem creation_opens_history_witness:
  "account_creation ''Alice'' 500 ''1995-05-12'' (Some 1234) (init (sconst 7) (sconst noon)) =
     Some (Inr \<lparr>account_number = ''2304060007'', issued_pin = 1234,
                creation_message = check_mark @ '' Account created successfully!''\<rparr>,
           \<lparr>accounts = fmupd ''2304060007'' alice fmempty, rand = sconst 7,
            clock = sconst noon\<rparr>)
   \<and> (\<exists>acc t.
         ''2304060007'' |\<notin>| fmdom (accounts (init (sconst 7) (sconst noon)))
       \<and> fmlookup (fmupd ''2304060007'' alice fmempty) ''2304060007'' = Some acc
       \<and> transaction_history acc =
           [\<lparr>type = ''Deposit'', amount = 500, time = t, note = ''Opening balance''\<rparr>]
       \<and> pin acc = 1234)"
  using creation_opens_history[OF creation_alice] creation_alice by simp



subsection \<open>Stored transactions\<close>

text \<open>
  C7. Every transaction record in the history of any account, in any world a bank can
  reach from its creation by calls of its public methods, has a type of one of the
  four kinds (the string "Deposit", the string "Withdrawal", "Transfer to " followed
  by an account number for a transfer out, "Transfer from " followed by an account
  number for a transfer in) and a strictly positive amount.
\<close>

theorem stored_transactions_well_formed:
  assumes "reachable w" and "fmlookup (accounts w) a = Some acc"
    and "t \<in> set (transaction_history acc)"
  shows "(\<exists>k. kind_of (type t) = Some k) \<and> 0 < amount t"
proof -
  from reachable_histories[OF assms(1)] assms(2)
  have "list_all stored_ok (transaction_history acc)"
    by (simp add: histories_ok_iff)
  with assms(3) have "stored_ok t" by (simp add: list_all_iff)
  then show ?thesis by (auto simp: stored_ok_def)
qed

text \<open>
  A fresh bank, Alice's account created, then 100 transferred from it to itself: the
  world is reachable and its three records are a Deposit, a transfer out and a
  transfer in.
\<close>

theorem stored_transactions_well_formed_witness:
  "reachable
     \<lparr>accounts =
        fmupd ''2304060007''
          (alice\<lparr>transaction_history :=
             [opening_deposit 500,
              \<lparr>type = ''Transfer to 2304060007'', amount = 100, time = noon,
                note = ''Cash transfer''\<rparr>,
              \<lparr>type = ''Transfer from 2304060007'', amount = 100, time = noon,
                note = ''Cash transfer''\<rparr>]\<rparr>)
          fmempty,
      rand = sconst 7, clock = sconst noon\<rparr>
   \<and> kind_of ''Transfer to 2304060007'' = Some Transfer_out
   \<and> kind_of ''Transfer from 2304060007'' = Some Transfer_in
   \<and> kind_of ''Deposit'' = Some Deposit
   \<and> (0::int) < 100"
proof -
  let ?T = "\<lparr>type = ''Transfer to 2304060007'', amount = 100, time = noon,
                note = ''Cash transfer''\<rparr>"
  let ?A = "alice\<lparr>transaction_history :=
             [opening_deposit 500, ?T,
              \<lparr>type = ''Transfer from 2304060007'', amount = 100, time = noon,
                note = ''Cash transfer''\<rparr>]\<rparr>"
  let ?W1 = "\<lparr>accounts = fmupd ''2304060007'' alice fmempty, rand = sconst 7,
              clock = sconst noon\<rparr>"
  let ?W2 = "\<lparr>accounts = fmupd ''2304060007'' ?A fmempty, rand = sconst 7,
              clock = sconst noon\<rparr>"
  have r0: "reachable (init (sconst 7) (sconst noon))"
    by (rule reachable.fresh)
  have r1: "reachable ?W1"
    by (rule reachable.after_account_creation[OF r0 creation_alice])
  obtain r where t: "transfer ''2304060007'' ''2304060007'' 1234 100 ?W1 = Some (Inr r, ?W2)"
    by (simp add: transfer_eq alice_def MIN_BALANCE_def)
  have r2: "reachable ?W2"
    by (rule reachable.after_transfer[OF r1 t])
  have "(\<exists>k. kind_of (type ?T) = Some k) \<and> 0 < amount ?T"
    by (rule stored_transactions_well_formed[OF r2, of "''2304060007''" ?A]) simp_all
  with r2 show ?thesis by (simp add: kind_of_def)
qed

end
